theory Spec2Isabelle
  imports Complex_Main "HOL-Library.AList" "HOL-Library.Sublist"
    "HOL-Library.Char_ord" "HOL-Library.List_Lexorder"
begin

text \<open>
  The data pipeline of \<open>covid.py\<close>, a dashboard over the WHO COVID-19 table:
  \<open>load_data\<close> finds and reads the file, \<open>preprocess\<close> cleans it, and \<open>main\<close>
  filters it by date and country and derives the tables behind the charts. pandas and
  Streamlit are not part of the program; their operations are modelled by what they do
  to the values, one definition per operation, named after it.
\<close>

section \<open>Numbers\<close>

text \<open>
  The numeric columns of the table are float64 (or int64) in pandas. A finite number is
  modelled as a rational and the arithmetic on it is exact. For sums and differences of
  integer counts of magnitude below \<open>2 ^ 53\<close> that is the arithmetic of the code; a
  quotient, and any operation on fractions, the code rounds to the nearest float64
  where the model keeps the exact value, so what is proved of a quotient is proved of
  the expression that the code evaluates, up to that rounding. What a division can make
  out of finite numbers is modelled in full: \<open>x / 0\<close> does not raise in pandas, it is
  an infinity for \<open>x \<noteq> 0\<close> and NaN for \<open>x = 0\<close>.
\<close>

datatype fnum = Fin rat | PInf | NInf | NaN

definition truediv :: "rat \<Rightarrow> rat \<Rightarrow> fnum" where
  "truediv a b =
     (if b \<noteq> 0 then Fin (a / b)
      else if a = 0 then NaN
      else if 0 < a then PInf else NInf)"

fun sub1 :: "fnum \<Rightarrow> fnum" where
  "sub1 (Fin x) = Fin (x - 1)"
| "sub1 PInf = PInf"
| "sub1 NInf = NInf"
| "sub1 NaN = NaN"

fun fillna0 :: "fnum \<Rightarrow> fnum" where
  "fillna0 NaN = Fin 0"
| "fillna0 x = x"

section \<open>The cleaned table, as \<open>main\<close> reads it\<close>

text \<open>
  One row of the table that \<open>preprocess\<close> returns, with the columns that \<open>main\<close>
  reads. \<open>Date\<close> is the calendar day as a day number, \<open>None\<close> where the report date
  did not parse (NaT). The metric of the sidebar is one of two columns.
\<close>

record row =
  Country :: string
  Date :: "int option"
  New_cases :: rat
  New_deaths :: rat
  Cumulative_cases :: rat
  Cumulative_deaths :: rat

datatype metric = M_New_cases | M_New_deaths

fun col :: "metric \<Rightarrow> row \<Rightarrow> rat" where
  "col M_New_cases r = New_cases r"
| "col M_New_deaths r = New_deaths r"

text \<open>
  \<open>mask = (df["Date"] >= date_range[0]) & (df["Date"] <= date_range[1])\<close>: a comparison
  with a missing date is false, so the rows without a date are not in \<open>df_f\<close>.
\<close>

definition mask :: "int \<times> int \<Rightarrow> row \<Rightarrow> bool" where
  "mask date_range r =
     (case Date r of None \<Rightarrow> False
      | Some d \<Rightarrow> fst date_range \<le> d \<and> d \<le> snd date_range)"

definition df_f :: "int \<times> int \<Rightarrow> row list \<Rightarrow> row list" where
  "df_f date_range df = filter (mask date_range) df"

text \<open>\<open>df_c1\<close> and \<open>df_c2\<close>: \<open>df_f[df_f["Country"] == c]\<close>.\<close>

definition df_c :: "row list \<Rightarrow> string \<Rightarrow> row list" where
  "df_c W c = filter (\<lambda>r. Country r = c) W"

text \<open>
  \<open>groupby(key)[val].sum().reset_index()\<close>: one row per key that occurs, the keys in
  ascending order, rows with a missing key dropped.
\<close>

definition group_keys :: "('r \<Rightarrow> 'k::linorder option) \<Rightarrow> 'r list \<Rightarrow> 'k list" where
  "group_keys key rows = sort (remdups (List.map_filter key rows))"

definition group_sum :: "('r \<Rightarrow> 'k option) \<Rightarrow> ('r \<Rightarrow> rat) \<Rightarrow> 'r list \<Rightarrow> 'k \<Rightarrow> rat" where
  "group_sum key val rows k = sum_list (map val (filter (\<lambda>r. key r = Some k) rows))"

definition groupby_sum ::
  "('r \<Rightarrow> 'k::linorder option) \<Rightarrow> ('r \<Rightarrow> rat) \<Rightarrow> 'r list \<Rightarrow> ('k \<times> rat) list" where
  "groupby_sum key val rows = map (\<lambda>k. (k, group_sum key val rows k)) (group_keys key rows)"


text \<open>\<open>pd.concat([df_c1.assign(Country=c1), df_c2.assign(Country=c2)])\<close>.\<close>

definition assign_Country :: "string \<Rightarrow> row \<Rightarrow> row" where
  "assign_Country c r = r\<lparr>Country := c\<rparr>"

definition df_compare :: "row list \<Rightarrow> string \<Rightarrow> string \<Rightarrow> row list" where
  "df_compare W c1 c2 = map (assign_Country c1) (df_c W c1) @ map (assign_Country c2) (df_c W c2)"

text \<open>
  \<open>groupby("Country")[metric].pct_change()\<close>: every row gets \<open>value / previous - 1\<close>,
  where previous is the value of the row before it in the same group, in the order of the
  table; the first row of a group has no previous row and gets NaN. The map remembers
  the last value seen in each group.
\<close>

fun groupby_pct_change :: "(string \<rightharpoonup> rat) \<Rightarrow> (string \<times> rat) list \<Rightarrow> fnum list" where
  "groupby_pct_change prev [] = []"
| "groupby_pct_change prev ((g, x) # rs) =
     (case prev g of None \<Rightarrow> NaN | Some p \<Rightarrow> sub1 (truediv x p))
       # groupby_pct_change (prev(g \<mapsto> x)) rs"

definition GrowthRate :: "metric \<Rightarrow> row list \<Rightarrow> fnum list" where
  "GrowthRate m rows =
     map fillna0 (groupby_pct_change Map.empty (map (\<lambda>r. (Country r, col m r)) rows))"

definition df_gr :: "row list \<Rightarrow> metric \<Rightarrow> string \<Rightarrow> string \<Rightarrow> (row \<times> fnum) list" where
  "df_gr W m c1 c2 = zip (df_compare W c1 c2) (GrowthRate m (df_compare W c1 c2))"

text \<open>The totals of the second tab.\<close>

definition df_world :: "row list \<Rightarrow> metric \<Rightarrow> (int \<times> rat) list" where
  "df_world W m = groupby_sum Date (col m) W"

definition df_two :: "row list \<Rightarrow> metric \<Rightarrow> string \<Rightarrow> string \<Rightarrow> (int \<times> rat) list" where
  "df_two W m c1 c2 = groupby_sum Date (col m) (df_compare W c1 c2)"

definition total_two :: "row list \<Rightarrow> metric \<Rightarrow> string \<Rightarrow> string \<Rightarrow> rat" where
  "total_two W m c1 c2 = sum_list (map snd (df_two W m c1 c2))"

definition total_world :: "row list \<Rightarrow> metric \<Rightarrow> rat" where
  "total_world W m = sum_list (map snd (df_world W m))"

definition total_rest :: "row list \<Rightarrow> metric \<Rightarrow> string \<Rightarrow> string \<Rightarrow> rat" where
  "total_rest W m c1 c2 = total_world W m - total_two W m c1 c2"

definition df_comp :: "row list \<Rightarrow> metric \<Rightarrow> string \<Rightarrow> string \<Rightarrow> (string \<times> rat) list" where
  "df_comp W m c1 c2 =
     [(c1 @ '' + '' @ c2, total_two W m c1 c2), (''Rest of World'', total_rest W m c1 c2)]"

text \<open>
  \<open>df_cfr["Cumulative_deaths"] / df_cfr["Cumulative_cases"].replace({0: None})\<close>: the
  zeros of the denominator become missing values, and a division by a missing value is
  missing.
\<close>

definition replace_0_None :: "rat \<Rightarrow> rat option" where
  "replace_0_None x = (if x = 0 then None else Some x)"

definition div_series :: "rat \<Rightarrow> rat option \<Rightarrow> fnum" where
  "div_series a b = (case b of None \<Rightarrow> NaN | Some d \<Rightarrow> truediv a d)"

definition CFR :: "row \<Rightarrow> fnum" where
  "CFR r = div_series (Cumulative_deaths r) (replace_0_None (Cumulative_cases r))"

definition df_cfr :: "row list \<Rightarrow> string \<Rightarrow> string \<Rightarrow> (row \<times> fnum) list" where
  "df_cfr W c1 c2 = map (\<lambda>r. (r, CFR r)) (df_compare W c1 c2)"

text \<open>
  The ranking. \<open>sort_values(rank_metric, ascending=False)\<close> is modelled by a stable
  sort of the groups, which \<open>groupby\<close> lists by country; pandas does not promise the
  order of countries with equal sums, and nothing below depends on it. \<open>head(10)\<close> is
  \<open>take 10\<close>; the loop over \<open>[c1, c2]\<close> appends the row of a selected country that
  is not yet in \<open>df_top\<close>.
\<close>

definition df_rank :: "row list \<Rightarrow> metric \<Rightarrow> (string \<times> rat) list" where
  "df_rank W m = sort_key (\<lambda>r. - snd r) (groupby_sum (\<lambda>r. Some (Country r)) (col m) W)"

definition ensure_selected ::
  "(string \<times> rat) list \<Rightarrow> (string \<times> rat) list \<Rightarrow> string \<Rightarrow> (string \<times> rat) list" where
  "ensure_selected rank tp sel =
     (if sel \<notin> set (map fst tp) then tp @ filter (\<lambda>r. fst r = sel) rank else tp)"

definition Selected :: "string \<Rightarrow> string \<Rightarrow> string \<Rightarrow> string" where
  "Selected c1 c2 x = (if x \<in> set [c1, c2] then x @ '' (Selected)'' else ''Other'')"

definition df_top ::
  "row list \<Rightarrow> metric \<Rightarrow> string \<Rightarrow> string \<Rightarrow> (string \<times> rat \<times> string) list" where
  "df_top W m c1 c2 =
     map (\<lambda>r. (fst r, snd r, Selected c1 c2 (fst r)))
       (foldl (ensure_selected (df_rank W m)) (take 10 (df_rank W m)) [c1, c2])"

section \<open>Tables as pandas holds them\<close>

text \<open>
  A DataFrame is a list of labelled columns over a common number of rows. A cell is
  missing (NaN, None, NaT), a string, a number (finite, or one of the two infinities that
  a float column can hold) or a calendar day. Strings are lists of
  characters with codes below 256. Reading a label that the table does not have raises
  KeyError; assigning to a label replaces the column where it stands, or appends it.
  With two columns of one label pandas answers \<open>df[label]\<close> with a table and not a
  column; the model reads the first of them, so what is proved of \<open>preprocess\<close> is
  stated for tables with distinct labels.
\<close>

datatype number = Finite rat | PlusInfinity | MinusInfinity

datatype cell = Null | Str string | Num number | Day int

record frame =
  nrows :: nat
  cols :: "(string \<times> cell list) list"

datatype error = KeyError string | ColumnsNotFound "string list"

definition columns :: "frame \<Rightarrow> string list" where
  "columns df = map fst (cols df)"

definition getitem :: "frame \<Rightarrow> string \<Rightarrow> error + cell list" where
  "getitem df c = (case map_of (cols df) c of None \<Rightarrow> Inl (KeyError c) | Some v \<Rightarrow> Inr v)"

definition setitem :: "frame \<Rightarrow> string \<Rightarrow> cell list \<Rightarrow> frame" where
  "setitem df c v = df\<lparr>cols := AList.update c v (cols df)\<rparr>"

text \<open>A table of pandas has distinct labels here, and every column has a cell for every row.\<close>

definition well_formed :: "frame \<Rightarrow> bool" where
  "well_formed df \<longleftrightarrow>
     distinct (columns df) \<and> list_all (\<lambda>v. length v = nrows df) (map snd (cols df))"

text \<open>
  What pandas and Python do with a cell that the program does not fix is a parameter:
  the number that \<open>to_numeric\<close> reads from a cell that is neither missing nor a number
  (a finite one, or an infinity from a text such as \<open>inf\<close>; \<open>None\<close> where it reads none),
  the day that \<open>to_datetime\<close> reads from a cell that is neither missing nor a day, and
  the text of \<open>astype(str)\<close> for a cell that is not a string.
\<close>

record pandas =
  numeric_of :: "cell \<Rightarrow> number option"
  day_of :: "cell \<Rightarrow> int option"
  str_of :: "cell \<Rightarrow> string"

text \<open>\<open>pd.to_numeric(..., errors="coerce")\<close>, \<open>fillna\<close>, \<open>pd.to_datetime(..., errors="coerce").dt.date\<close>, \<open>astype(str)\<close>, one cell at a time.\<close>

definition to_numeric :: "pandas \<Rightarrow> cell \<Rightarrow> cell" where
  "to_numeric pd c =
     (case c of Null \<Rightarrow> Null | Num x \<Rightarrow> Num x
      | _ \<Rightarrow> (case numeric_of pd c of None \<Rightarrow> Null | Some x \<Rightarrow> Num x))"

definition fillna :: "cell \<Rightarrow> cell \<Rightarrow> cell" where
  "fillna v c = (case c of Null \<Rightarrow> v | _ \<Rightarrow> c)"

definition to_datetime_date :: "pandas \<Rightarrow> cell \<Rightarrow> cell" where
  "to_datetime_date pd c =
     (case c of Null \<Rightarrow> Null | Day d \<Rightarrow> Day d
      | _ \<Rightarrow> (case day_of pd c of None \<Rightarrow> Null | Some d \<Rightarrow> Day d))"

definition astype_str :: "pandas \<Rightarrow> cell \<Rightarrow> string" where
  "astype_str pd c = (case c of Str s \<Rightarrow> s | _ \<Rightarrow> str_of pd c)"

text \<open>Python's \<open>str.strip()\<close>, \<open>str.lower()\<close> and \<open>sub in s\<close> on such strings.\<close>

definition isspace :: "char \<Rightarrow> bool" where
  "isspace c = (of_char c \<in> set [9, 10, 11, 12, 13, 28, 29, 30, 31, 32, 133, 160 :: nat])"

definition strip :: "string \<Rightarrow> string" where
  "strip s = rev (dropWhile isspace (rev (dropWhile isspace s)))"

definition lower_char :: "char \<Rightarrow> char" where
  "lower_char c =
     (let n = of_char c :: nat
      in if (65 \<le> n \<and> n \<le> 90) \<or> (192 \<le> n \<and> n \<le> 222 \<and> n \<noteq> 215)
         then char_of (n + 32) else c)"

definition lower :: "string \<Rightarrow> string" where
  "lower s = map lower_char s"

fun contains :: "string \<Rightarrow> string \<Rightarrow> bool" where
  "contains sub [] = (sub = [])"
| "contains sub (c # cs) = (prefix sub (c # cs) \<or> contains sub cs)"

section \<open>\<open>preprocess\<close>\<close>

text \<open>Lines 68 to 74: the table gets a \<open>Country\<close> column when it has none.\<close>

definition ensure_Country :: "frame \<Rightarrow> frame" where
  "ensure_Country df =
     (if ''Country'' \<in> set (columns df) then df
      else case filter (\<lambda>c. contains ''country'' (lower c)) (columns df) of
             [] \<Rightarrow> setitem df ''Country'' (replicate (nrows df) (Str ''Unknown''))
           | c # _ \<Rightarrow>
               (case map_of (cols df) c of Some v \<Rightarrow> setitem df ''Country'' v | None \<Rightarrow> df))"

text \<open>Lines 76 to 78: one turn of the loop over the four numeric columns.\<close>

definition numeric_cols :: "string list" where
  "numeric_cols = [''New_cases'', ''New_deaths'', ''Cumulative_cases'', ''Cumulative_deaths'']"

definition coerce :: "pandas \<Rightarrow> cell \<Rightarrow> cell" where
  "coerce pd c = fillna (Num (Finite 0)) (to_numeric pd c)"

definition coerce_col :: "pandas \<Rightarrow> frame \<Rightarrow> string \<Rightarrow> frame" where
  "coerce_col pd df c =
     (case map_of (cols df) c of None \<Rightarrow> df | Some v \<Rightarrow> setitem df c (map (coerce pd) v))"

text \<open>Line 80: \<open>fillna("Unknown").astype(str).str.strip()\<close>.\<close>

definition clean_Country :: "pandas \<Rightarrow> cell \<Rightarrow> cell" where
  "clean_Country pd c = Str (strip (astype_str pd (fillna (Str ''Unknown'') c)))"

definition preprocess :: "pandas \<Rightarrow> frame \<Rightarrow> error + frame" where
  "preprocess pd df0 =
     (let df1 = ensure_Country df0 in
      case getitem df1 ''Date_reported'' of
        Inl e \<Rightarrow> Inl e
      | Inr reported \<Rightarrow>
          let df2 = setitem df1 ''Date'' (map (to_datetime_date pd) reported);
              df3 = foldl (coerce_col pd) df2 numeric_cols
          in case getitem df3 ''Country'' of
               Inl e \<Rightarrow> Inl e
             | Inr country \<Rightarrow> Inr (setitem df3 ''Country'' (map (clean_Country pd) country)))"

section \<open>\<open>main\<close>, from the cleaned table to the tables behind the charts\<close>









section \<open>\<open>load_data\<close>\<close>

text \<open>
  The file system and the network are a function from a path or URL to what
  \<open>pd.read_csv\<close> does with it: a parsed table, FileNotFoundError, or another exception
  with its text. What the page shows is a list of elements; \<open>st.stop()\<close> ends the run
  with the elements shown so far.
\<close>

datatype read = Parsed frame | FileNotFoundError | OtherError string

datatype element = Error string | Info string

datatype outcome = Loaded frame | Stop "element list"

definition filename :: string where
  "filename = ''WHO-COVID-19-global-data.csv''"

definition github_raw :: string where
  "github_raw = ''https://raw.githubusercontent.com/Tomifemme/dashboard/main/WHO-COVID-19-global-data.csv''"

definition path_join :: "string \<Rightarrow> string \<Rightarrow> string" where
  "path_join a b =
     (if b \<noteq> [] \<and> hd b = CHR ''/'' then b
      else if a = [] \<or> last a = CHR ''/'' then a @ b
      else a @ ''/'' @ b)"

definition strip_columns :: "frame \<Rightarrow> frame" where
  "strip_columns df = df\<lparr>cols := map (\<lambda>(c, v). (strip c, v)) (cols df)\<rparr>"

definition try_paths :: "string \<Rightarrow> string option \<Rightarrow> string list" where
  "try_paths script_dir env_url =
     [filename, path_join script_dir filename]
       @ (case env_url of None \<Rightarrow> [] | Some u \<Rightarrow> if u \<noteq> [] then [u] else [])"

definition reading_error :: "string \<Rightarrow> string \<Rightarrow> element" where
  "reading_error p e = Error (''Error reading data from '' @ p @ '': '' @ e)"

definition not_found_help :: "element list" where
  "not_found_help =
     [Error (''Data file '' @ [CHR 0x27] @ ''WHO-COVID-19-global-data.csv'' @ [CHR 0x27]
        @ '' not found.'' @ [CHR 0x0A]
        @ ''Fix options:'' @ [CHR 0x0A]
        @ '' - Add the CSV to the repository root and push to GitHub.'' @ [CHR 0x0A]
        @ '' - Set the DATA_URL environment variable to a public CSV URL.'' @ [CHR 0x0A]
        @ '' - Use Streamlit'' @ [CHR 0x27] @ ''s file uploader to upload the CSV at runtime.''
        @ [CHR 0x0A]),
      Info (''If you want, I can add the CSV file to the repo for you. ''
        @ ''Or set DATA_URL in Streamlit Cloud settings.'')]"

text \<open>The loop of lines 35 to 46; \<open>None\<close> when it ends without returning or stopping.\<close>

fun try_each :: "(string \<Rightarrow> read) \<Rightarrow> string list \<Rightarrow> outcome option" where
  "try_each read_csv [] = None"
| "try_each read_csv (p # ps) =
     (case read_csv p of
        Parsed df \<Rightarrow> Some (Loaded (strip_columns df))
      | FileNotFoundError \<Rightarrow> try_each read_csv ps
      | OtherError e \<Rightarrow> Some (Stop [reading_error p e]))"

definition load_data :: "(string \<Rightarrow> read) \<Rightarrow> string \<Rightarrow> string option \<Rightarrow> outcome" where
  "load_data read_csv script_dir env_url =
     (case try_each read_csv (try_paths script_dir env_url) of
        Some r \<Rightarrow> r
      | None \<Rightarrow>
          (case read_csv github_raw of
             Parsed df \<Rightarrow> Loaded (strip_columns df)
           | _ \<Rightarrow> Stop not_found_help))"

section \<open>Example tables\<close>

definition obs :: "string \<Rightarrow> int \<Rightarrow> rat \<Rightarrow> rat \<Rightarrow> rat \<Rightarrow> rat \<Rightarrow> row" where
  "obs c d nc nd cc cd =
     \<lparr>Country = c, Date = Some d, New_cases = nc, New_deaths = nd,
      Cumulative_cases = cc, Cumulative_deaths = cd\<rparr>"

definition two_days :: "row list" where
  "two_days = [obs ''Italy'' 1 10 0 10 0, obs ''Italy'' 2 20 1 30 1, obs ''Peru'' 1 5 0 5 0]"

definition revised :: "row list" where
  "revised = [obs ''Italy'' 1 10 0 10 0, obs ''Peru'' 1 5 0 5 0, obs ''Chad'' 1 (- 20) 0 0 0]"

definition italy :: "row list" where
  "italy = [obs ''Italy'' 1 10 0 0 0, obs ''Italy'' 2 20 1 5 1, obs ''Italy'' 3 0 1 10 2,
            obs ''Peru'' 2 5 0 5 0]"

definition backwards :: "row list" where
  "backwards = [obs ''Italy'' 2 10 0 30 0, obs ''Italy'' 1 20 0 20 0, obs ''Peru'' 1 5 0 5 0]"

definition zero_then_five :: "row list" where
  "zero_then_five = [obs ''Italy'' 1 0 0 0 0, obs ''Italy'' 2 5 0 5 0, obs ''Peru'' 1 5 0 5 0]"

definition late_chad :: "row list" where
  "late_chad = two_days @ [obs ''Chad'' 9 7 0 7 0]"

definition eleven :: "row list" where
  "eleven =
     [obs ''A'' 1 11 0 11 0, obs ''B'' 1 10 0 10 0, obs ''C'' 1 9 0 9 0, obs ''D'' 1 8 0 8 0,
      obs ''E'' 1 7 0 7 0, obs ''F'' 1 6 0 6 0, obs ''G'' 1 5 0 5 0, obs ''H'' 1 4 0 4 0,
      obs ''I'' 1 3 0 3 0, obs ''J'' 1 2 0 2 0, obs ''K'' 1 1 0 1 0, obs ''K'' 2 0 0 1 0]"

definition no_parse :: pandas where
  "no_parse = \<lparr>numeric_of = (\<lambda>c. None), day_of = (\<lambda>c. None), str_of = (\<lambda>c. ''nan'')\<rparr>"

definition reads_inf :: pandas where
  "reads_inf =
     \<lparr>numeric_of = (\<lambda>c. if c = Str ''inf'' then Some PlusInfinity
                         else if c = Str ''-inf'' then Some MinusInfinity else None),
      day_of = (\<lambda>c. None), str_of = (\<lambda>c. ''nan'')\<rparr>"

definition messy :: frame where
  "messy = \<lparr>nrows = 2, cols =
     [(''Date_reported'', [Day 1, Str ''soon'']),
      (''WHO_country'', [Str '' Italy '', Null]),
      (''New_cases'', [Str ''n/a'', Num (Finite 3)])]\<rparr>"

definition blank_negative :: frame where
  "blank_negative = \<lparr>nrows = 1, cols =
     [(''Date_reported'', [Day 1]), (''Country'', [Str ''  '']), (''New_cases'', [Num (Finite (- 5))]),
      (''New_deaths'', [Str ''inf''])]\<rparr>"

definition no_date :: frame where
  "no_date = \<lparr>nrows = 1, cols = [(''Country'', [Str ''Italy'']), (''New_cases'', [Num (Finite 1)])]\<rparr>"

definition text_of :: "element \<Rightarrow> string" where
  "text_of m = (case m of Error s \<Rightarrow> s | Info s \<Rightarrow> s)"

definition fallback_down :: "string \<Rightarrow> read" where
  "fallback_down p =
     (if p = github_raw then OtherError ''HTTP Error 503: Service Unavailable''
      else FileNotFoundError)"

definition broken_copy :: "string \<Rightarrow> read" where
  "broken_copy p =
     (if p = filename then FileNotFoundError else OtherError ''No columns to parse from file'')"




section \<open>Sums over groups\<close>

lemma df_f_dated: "r \<in> set (df_f dr df) \<Longrightarrow> \<exists>d. Date r = Some d"
  by (auto simp: df_f_def mask_def split: option.splits)

lemma sum_list_delta:
  "distinct ks \<Longrightarrow> (\<Sum>k\<leftarrow>ks. if k = a then v else (0::rat)) = (if a \<in> set ks then v else 0)"
  by (induction ks) auto

lemma group_sum_Cons:
  "group_sum key val (r # rs) k = (if key r = Some k then val r else 0) + group_sum key val rs k"
  by (simp add: group_sum_def)

lemma group_sums_total:
  assumes "distinct ks" and "\<forall>r\<in>set rows. \<exists>k\<in>set ks. key r = Some k"
  shows "(\<Sum>k\<leftarrow>ks. group_sum key val rows k) = sum_list (map val rows)"
  using assms(2)
proof (induction rows)
  case Nil
  then show ?case by (simp add: group_sum_def)
next
  case (Cons r rs)
  from Cons.prems obtain k0 where k0: "k0 \<in> set ks" "key r = Some k0" by auto
  have "(\<Sum>k\<leftarrow>ks. group_sum key val (r # rs) k)
      = (\<Sum>k\<leftarrow>ks. (if k = k0 then val r else 0)) + (\<Sum>k\<leftarrow>ks. group_sum key val rs k)"
  proof -
    have "\<And>k. (key r = Some k) = (k = k0)" using k0 by auto
    then show ?thesis by (simp add: group_sum_Cons sum_list_addf)
  qed
  also have "\<dots> = val r + sum_list (map val rs)"
    using Cons k0 assms(1) by (simp add: sum_list_delta)
  finally show ?case by simp
qed

lemma set_group_keys: "set (group_keys key rows) = {k. \<exists>r\<in>set rows. key r = Some k}"
  by (force simp: group_keys_def List.map_filter_def)

lemma distinct_group_keys: "distinct (group_keys key rows)"
  by (simp add: group_keys_def)

lemma groupby_sum_total:
  assumes "\<forall>r\<in>set rows. \<exists>k. key r = Some k"
  shows "sum_list (map snd (groupby_sum key val rows)) = sum_list (map val rows)"
proof -
  have "\<forall>r\<in>set rows. \<exists>k\<in>set (group_keys key rows). key r = Some k"
    using assms unfolding set_group_keys by blast
  from group_sums_total[OF distinct_group_keys this]
  show ?thesis by (simp add: groupby_sum_def comp_def)
qed

lemma total_world_window: "total_world (df_f dr df) m = sum_list (map (col m) (df_f dr df))"
  unfolding total_world_def df_world_def
  by (rule groupby_sum_total) (auto dest: df_f_dated)

lemma col_assign_Country [simp]: "col m (assign_Country c r) = col m r"
  by (cases m) (simp_all add: assign_Country_def)

lemma Date_assign_Country [simp]: "Date (assign_Country c r) = Date r"
  by (simp add: assign_Country_def)

lemma assign_Country_same: "Country r = c \<Longrightarrow> assign_Country c r = r"
  by (simp add: assign_Country_def)

lemma assign_Country_df_c: "map (assign_Country c) (df_c W c) = df_c W c"
  unfolding df_c_def by (induction W) (auto simp: assign_Country_same)

lemma df_compare_rows: "df_compare W c1 c2 = df_c W c1 @ df_c W c2"
  by (simp add: df_compare_def assign_Country_df_c)

lemma total_two_window:
  "total_two (df_f dr df) m c1 c2 =
     sum_list (map (col m) (df_c (df_f dr df) c1)) + sum_list (map (col m) (df_c (df_f dr df) c2))"
proof -
  have "\<forall>r\<in>set (df_compare (df_f dr df) c1 c2). \<exists>k. Date r = Some k"
    by (auto simp: df_compare_rows df_c_def dest: df_f_dated)
  then have "total_two (df_f dr df) m c1 c2 = sum_list (map (col m) (df_compare (df_f dr df) c1 c2))"
    unfolding total_two_def df_two_def by (rule groupby_sum_total)
  then show ?thesis by (simp add: df_compare_rows)
qed


text \<open>
  C2. A Filtered Window of the data model holds counts: integers, here with absolute
  values that sum to at most \<open>2 ^ 51\<close>, so that every sum and difference below is
  exact in float64 and in int64 as it is in the model. For every such window, metric
  and pair of selected countries, the combined total plus the rest-of-world total is the
  global total, where the global total is the sum of the metric over the window, the
  combined total is the sum over the rows of the first country plus the sum over the
  rows of the second, and the reported rest-of-world value is the global total minus the
  combined total, whatever its sign.
\<close>

theorem rest_of_world_identity:
  assumes "\<forall>r\<in>set (df_f dr df). col m r \<in> \<int>"
    and "(\<Sum>r\<leftarrow>df_f dr df. \<bar>col m r\<bar>) \<le> 2 ^ 51"
  shows "total_two (df_f dr df) m c1 c2 + total_rest (df_f dr df) m c1 c2
       = total_world (df_f dr df) m
   \<and> total_world (df_f dr df) m = sum_list (map (col m) (df_f dr df))
   \<and> total_two (df_f dr df) m c1 c2
       = sum_list (map (col m) (df_c (df_f dr df) c1)) + sum_list (map (col m) (df_c (df_f dr df) c2))
   \<and> df_comp (df_f dr df) m c1 c2
       = [(c1 @ '' + '' @ c2, total_two (df_f dr df) m c1 c2),
          (''Rest of World'', total_world (df_f dr df) m - total_two (df_f dr df) m c1 c2)]"
  by (simp add: total_rest_def total_world_window total_two_window df_comp_def)

text \<open>A window where the rest is negative: a revision of \<open>- 20\<close> outside the two countries.\<close>

theorem rest_of_world_identity_witness:
  "map (col M_New_cases) (df_f (1, 1) revised) = [10, 5, - 20]
   \<and> (\<Sum>r\<leftarrow>df_f (1, 1) revised. \<bar>col M_New_cases r\<bar>) = 35
   \<and> total_two (df_f (1, 1) revised) M_New_cases ''Italy'' ''Peru'' = 15
   \<and> total_world (df_f (1, 1) revised) M_New_cases = - 5
   \<and> total_rest (df_f (1, 1) revised) M_New_cases ''Italy'' ''Peru'' = - 20
   \<and> df_comp (df_f (1, 1) revised) M_New_cases ''Italy'' ''Peru''
       = [(''Italy + Peru'', 15), (''Rest of World'', - 20)]"
proof -
  have w: "df_f (1, 1) revised = revised"
    by (simp add: df_f_def mask_def revised_def obs_def)
  have ints: "\<forall>r\<in>set (df_f (1, 1) revised). col M_New_cases r \<in> \<int>"
    unfolding w by (simp add: revised_def obs_def)
  have small: "(\<Sum>r\<leftarrow>df_f (1, 1) revised. \<bar>col M_New_cases r\<bar>) \<le> 2 ^ 51"
    unfolding w by (simp add: revised_def obs_def)
  from rest_of_world_identity [OF ints small, of "''Italy''" "''Peru''"]
  show ?thesis
    unfolding w by (simp add: revised_def obs_def df_c_def total_rest_def)
qed

text \<open>
  C10. When both selectors name the same country, the concatenated table is that
  country's rows twice, the combined total is twice the country's total over the window,
  and the rest-of-world value is the global total minus that doubled sum.
\<close>

theorem same_country_double_count:
  "df_compare W c c = df_c W c @ df_c W c
   \<and> total_two (df_f dr df) m c c = 2 * sum_list (map (col m) (df_c (df_f dr df) c))
   \<and> total_rest (df_f dr df) m c c
       = sum_list (map (col m) (df_f dr df)) - 2 * sum_list (map (col m) (df_c (df_f dr df) c))"
  by (simp add: df_compare_rows total_rest_def total_world_window total_two_window)

text \<open>On counts that are all non-negative the rest is negative: 35 in the world, 60 combined.\<close>

theorem same_country_double_count_witness:
  "df_compare (df_f (1, 2) two_days) ''Italy'' ''Italy''
      = [obs ''Italy'' 1 10 0 10 0, obs ''Italy'' 2 20 1 30 1,
         obs ''Italy'' 1 10 0 10 0, obs ''Italy'' 2 20 1 30 1]
   \<and> total_two (df_f (1, 2) two_days) M_New_cases ''Italy'' ''Italy'' = 60
   \<and> sum_list (map (col M_New_cases) (df_f (1, 2) two_days)) = 35
   \<and> total_rest (df_f (1, 2) two_days) M_New_cases ''Italy'' ''Italy'' = - 25"
  using same_country_double_count [of "df_f (1, 2) two_days" "''Italy''" "(1, 2)" two_days M_New_cases]
  by (simp add: df_f_def mask_def two_days_def obs_def df_c_def)

section \<open>Growth rate\<close>

lemma pct_later:
  "\<forall>r\<in>set rs. fst r = g \<Longrightarrow> 0 < i \<Longrightarrow> i < length rs \<Longrightarrow>
     groupby_pct_change prev rs ! i = sub1 (truediv (snd (rs ! i)) (snd (rs ! (i - 1))))"
proof (induction rs arbitrary: prev i)
  case Nil
  then show ?case by simp
next
  case (Cons r rs)
  obtain x where r: "r = (g, x)" using Cons.prems by (cases r) auto
  obtain j where i: "i = Suc j" using Cons.prems by (cases i) auto
  show ?case
  proof (cases j)
    case 0
    then obtain q qs where rs: "rs = q # qs" using Cons.prems i by (cases rs) auto
    then obtain y where q: "q = (g, y)" using Cons.prems by (cases q) auto
    show ?thesis by (simp add: r i 0 rs q)
  next
    case (Suc k)
    have "groupby_pct_change (prev(g \<mapsto> x)) rs ! j
        = sub1 (truediv (snd (rs ! j)) (snd (rs ! (j - 1))))"
      using Cons.prems i Suc by (intro Cons.IH) auto
    then show ?thesis by (simp add: r i Suc)
  qed
qed

lemma pct_first:
  "rs \<noteq> [] \<Longrightarrow> groupby_pct_change Map.empty rs ! 0 = NaN"
  by (cases rs) auto

lemma pct_prev_cong:
  "\<forall>r\<in>set rs. prev (fst r) = prev' (fst r) \<Longrightarrow>
     groupby_pct_change prev rs = groupby_pct_change prev' rs"
proof (induction rs arbitrary: prev prev')
  case Nil
  then show ?case by simp
next
  case (Cons r rs)
  obtain g x where r: "r = (g, x)" by (cases r)
  have "groupby_pct_change (prev(g \<mapsto> x)) rs = groupby_pct_change (prev'(g \<mapsto> x)) rs"
    using Cons.prems by (intro Cons.IH) auto
  then show ?case using Cons.prems r by simp
qed

lemma pct_append_other:
  "\<forall>r\<in>set as. fst r \<notin> fst ` set bs \<Longrightarrow>
     groupby_pct_change prev (as @ bs) = groupby_pct_change prev as @ groupby_pct_change prev bs"
proof (induction as arbitrary: prev)
  case Nil
  then show ?case by simp
next
  case (Cons r as)
  obtain g x where r: "r = (g, x)" by (cases r)
  have g: "g \<notin> fst ` set bs" using Cons.prems r by simp
  have "groupby_pct_change (prev(g \<mapsto> x)) bs = groupby_pct_change prev bs"
    using g by (intro pct_prev_cong) auto
  moreover have "groupby_pct_change (prev(g \<mapsto> x)) (as @ bs)
      = groupby_pct_change (prev(g \<mapsto> x)) as @ groupby_pct_change (prev(g \<mapsto> x)) bs"
    using Cons.prems by (intro Cons.IH) simp
  ultimately show ?case using r by simp
qed

lemma length_groupby_pct_change [simp]: "length (groupby_pct_change prev rs) = length rs"
  by (induction rs arbitrary: prev) auto

lemma GrowthRate_compare:
  assumes "c1 \<noteq> c2"
  shows "GrowthRate m (df_c W c1 @ df_c W c2) = GrowthRate m (df_c W c1) @ GrowthRate m (df_c W c2)"
proof -
  let ?kv = "\<lambda>r. (Country r, col m r)"
  have "\<forall>r\<in>set (map ?kv (df_c W c1)). fst r \<notin> fst ` set (map ?kv (df_c W c2))"
    using assms by (auto simp: df_c_def)
  from pct_append_other [OF this] show ?thesis
    by (simp add: GrowthRate_def)
qed

lemma length_GrowthRate [simp]: "length (GrowthRate m rows) = length rows"
  by (simp add: GrowthRate_def)

lemma filter_zip_fst_all:
  "length ys = length xs \<Longrightarrow> \<forall>x\<in>set xs. P x \<Longrightarrow> filter (\<lambda>p. P (fst p)) (zip xs ys) = zip xs ys"
  by (auto simp: filter_id_conv dest: set_zip_leftD)

lemma filter_zip_fst_none:
  "\<forall>x\<in>set xs. \<not> P x \<Longrightarrow> filter (\<lambda>p. P (fst p)) (zip xs ys) = []"
  by (auto simp: filter_empty_conv dest: set_zip_leftD)

lemma df_gr_country:
  assumes "c1 \<noteq> c2" and "c \<in> {c1, c2}"
  shows "filter (\<lambda>p. Country (fst p) = c) (df_gr W m c1 c2) = zip (df_c W c) (GrowthRate m (df_c W c))"
proof -
  have split: "df_gr W m c1 c2 = zip (df_c W c1) (GrowthRate m (df_c W c1))
      @ zip (df_c W c2) (GrowthRate m (df_c W c2))"
    by (simp add: df_gr_def GrowthRate_compare [OF assms(1)] df_compare_rows)
  have in1: "\<forall>x\<in>set (df_c W c1). Country x = c1" and in2: "\<forall>x\<in>set (df_c W c2). Country x = c2"
    by (auto simp: df_c_def)
  show ?thesis
  proof (cases "c = c1")
    case True
    have "\<forall>x\<in>set (df_c W c2). \<not> Country x = c" using in2 True assms(1) by auto
    from filter_zip_fst_none [of "df_c W c2" "\<lambda>x. Country x = c", OF this]
      filter_zip_fst_all [of "GrowthRate m (df_c W c1)" "df_c W c1" "\<lambda>x. Country x = c"]
    show ?thesis using True in1 by (simp add: split)
  next
    case False
    then have c: "c = c2" using assms(2) by auto
    have "\<forall>x\<in>set (df_c W c1). \<not> Country x = c" using in1 c assms(1) by auto
    from filter_zip_fst_none [of "df_c W c1" "\<lambda>x. Country x = c", OF this]
      filter_zip_fst_all [of "GrowthRate m (df_c W c2)" "df_c W c2" "\<lambda>x. Country x = c"]
    show ?thesis using c in2 by (simp add: split)
  qed
qed

lemma GrowthRate_one_country:
  assumes "\<forall>r\<in>set rows. Country r = c"
  shows "(rows \<noteq> [] \<longrightarrow> GrowthRate m rows ! 0 = Fin 0)
    \<and> (\<forall>i. 0 < i \<and> i < length rows \<and> col m (rows ! (i - 1)) \<noteq> 0 \<longrightarrow>
          GrowthRate m rows ! i = Fin (col m (rows ! i) / col m (rows ! (i - 1)) - 1))"
proof -
  let ?kv = "\<lambda>r. (Country r, col m r)"
  have "\<forall>r\<in>set (map ?kv rows). fst r = c" using assms by simp
  note grp = this
  have first: "GrowthRate m rows ! 0 = Fin 0" if "rows \<noteq> []"
    using pct_first [of "map ?kv rows"] that by (simp add: GrowthRate_def nth_map)
  have later: "GrowthRate m rows ! i = Fin (col m (rows ! i) / col m (rows ! (i - 1)) - 1)"
    if "0 < i" "i < length rows" "col m (rows ! (i - 1)) \<noteq> 0" for i
  proof -
    have "groupby_pct_change Map.empty (map ?kv rows) ! i
        = sub1 (truediv (col m (rows ! i)) (col m (rows ! (i - 1))))"
      using pct_later [OF grp, of i Map.empty] that by (simp add: nth_map)
    then show ?thesis using that
      by (simp add: GrowthRate_def nth_map truediv_def)
  qed
  show ?thesis using first later by blast
qed


text \<open>
  C1, as the code has it. With two different countries selected, the rows of a selected
  country in \<open>df_gr\<close> are its rows of the window in the order of the table (which is
  ascending date order when the file lists each country's rows by date); the growth rate
  of the first of them is 0, and the growth rate of a later one whose previous value is
  not zero is current / previous - 1, the expression that \<open>pct_change\<close> evaluates.
  The code rounds the quotient and then the difference to float64, so its value is
  (current - previous) / previous up to that rounding only: 3 then 4 gives
  0.33333333333333326.
\<close>

theorem growth_rate_series:
  assumes "c1 \<noteq> c2" and "c \<in> {c1, c2}"
  shows "map fst (filter (\<lambda>p. Country (fst p) = c) (df_gr W m c1 c2)) = df_c W c
    \<and> (df_c W c \<noteq> [] \<longrightarrow>
          map snd (filter (\<lambda>p. Country (fst p) = c) (df_gr W m c1 c2)) ! 0 = Fin 0)
    \<and> (\<forall>i. 0 < i \<and> i < length (df_c W c) \<and> col m (df_c W c ! (i - 1)) \<noteq> 0 \<longrightarrow>
          map snd (filter (\<lambda>p. Country (fst p) = c) (df_gr W m c1 c2)) ! i
            = Fin (col m (df_c W c ! i) / col m (df_c W c ! (i - 1)) - 1))"
proof -
  have "\<forall>r\<in>set (df_c W c). Country r = c" by (simp add: df_c_def)
  from GrowthRate_one_country [OF this, of m] show ?thesis
    by (simp add: df_gr_country [OF assms])
qed

text \<open>Italy with new cases 10, 20, 0 on three consecutive days: growth rates 0, 1, -1.\<close>

theorem growth_rate_series_witness:
  "''Italy'' \<noteq> ''Peru''
   \<and> map (col M_New_cases) (df_c (df_f (1, 3) italy) ''Italy'') = [10, 20, 0]
   \<and> map snd (filter (\<lambda>p. Country (fst p) = ''Italy'')
        (df_gr (df_f (1, 3) italy) M_New_cases ''Italy'' ''Peru'')) = [Fin 0, Fin 1, Fin (- 1)]"
  using growth_rate_series [of "''Italy''" "''Peru''" "''Italy''" "df_f (1, 3) italy" M_New_cases]
  by (simp add: df_gr_def df_compare_def df_c_def df_f_def mask_def italy_def obs_def
      GrowthRate_def assign_Country_def truediv_def)

text \<open>
  C1 as stated fails in two ways. The code never sorts: in \<open>backwards\<close> Italy's row of
  day 2 stands before its row of day 1, and the observation of day 1, the first by date,
  gets growth rate 1 while that of day 2 gets 0 and not (10 - 20) / 20. And with the same
  country selected twice its rows stand twice in one group: the second copy of the first
  observation gets (10 - 20) / 20 and not 0.
\<close>

theorem growth_rate_series_counterexample:
  "df_gr (df_f (1, 2) backwards) M_New_cases ''Italy'' ''Peru''
     = [(obs ''Italy'' 2 10 0 30 0, Fin 0), (obs ''Italy'' 1 20 0 20 0, Fin 1),
        (obs ''Peru'' 1 5 0 5 0, Fin 0)]
   \<and> df_gr (df_f (1, 2) two_days) M_New_cases ''Italy'' ''Italy''
     = [(obs ''Italy'' 1 10 0 10 0, Fin 0), (obs ''Italy'' 2 20 1 30 1, Fin 1),
        (obs ''Italy'' 1 10 0 10 0, Fin (- (1 / 2))), (obs ''Italy'' 2 20 1 30 1, Fin 1)]"
  by (simp add: df_gr_def df_compare_def df_c_def df_f_def mask_def backwards_def two_days_def
      obs_def GrowthRate_def assign_Country_def truediv_def)

text \<open>
  C6. The previous value is 0 and the current one is 5: the growth rate of that row is
  an infinity. \<open>fillna(0)\<close> replaces NaN only, which is what 0 / 0 gives.
\<close>

theorem growth_rate_zero_previous:
  "df_gr (df_f (1, 2) zero_then_five) M_New_cases ''Italy'' ''Peru''
     = [(obs ''Italy'' 1 0 0 0 0, Fin 0), (obs ''Italy'' 2 5 0 5 0, PInf),
        (obs ''Peru'' 1 5 0 5 0, Fin 0)]"
  by (simp add: df_gr_def df_compare_def df_c_def df_f_def mask_def zero_then_five_def
      obs_def GrowthRate_def assign_Country_def truediv_def)

section \<open>Case fatality ratio\<close>

lemma CFR_cases:
  "(Cumulative_cases r \<noteq> 0 \<longrightarrow> CFR r = Fin (Cumulative_deaths r / Cumulative_cases r))
   \<and> (Cumulative_cases r = 0 \<longrightarrow> CFR r = NaN) \<and> CFR r \<noteq> PInf \<and> CFR r \<noteq> NInf"
  by (simp add: CFR_def replace_0_None_def div_series_def truediv_def)

text \<open>
  C3. The rows of \<open>df_cfr\<close> are the rows of the two selected countries; on each of them
  the ratio is cumulative deaths over cumulative cases when the cases are not zero, and
  the missing value when they are zero, never an infinity.
\<close>

theorem cfr_missing_on_zero_cases:
  "map fst (df_cfr W c1 c2) = df_c W c1 @ df_c W c2
   \<and> (\<forall>p\<in>set (df_cfr W c1 c2).
        (Cumulative_cases (fst p) \<noteq> 0 \<longrightarrow>
           snd p = Fin (Cumulative_deaths (fst p) / Cumulative_cases (fst p)))
        \<and> (Cumulative_cases (fst p) = 0 \<longrightarrow> snd p = NaN)
        \<and> snd p \<noteq> PInf \<and> snd p \<noteq> NInf)"
  using CFR_cases by (auto simp: df_cfr_def df_compare_rows comp_def)

text \<open>Cumulative cases 0, 5, 10 and cumulative deaths 0, 1, 2: missing, 0.2, 0.2.\<close>

theorem cfr_missing_on_zero_cases_witness:
  "map Cumulative_cases (df_c (df_f (1, 3) italy) ''Italy'') = [0, 5, 10]
   \<and> map Cumulative_deaths (df_c (df_f (1, 3) italy) ''Italy'') = [0, 1, 2]
   \<and> map snd (df_cfr (df_f (1, 3) italy) ''Italy'' ''Peru'') = [NaN, Fin (1 / 5), Fin (1 / 5), Fin 0]"
  using cfr_missing_on_zero_cases [of "df_f (1, 3) italy" "''Italy''" "''Peru''"]
  by (simp add: df_cfr_def df_compare_def df_c_def df_f_def mask_def italy_def obs_def
      CFR_def replace_0_None_def div_series_def assign_Country_def truediv_def)

section \<open>Ranking\<close>

lemma map_fst_groupby_sum: "map fst (groupby_sum key val rows) = group_keys key rows"
  by (simp add: groupby_sum_def comp_def)

lemma group_sum_Country: "group_sum (\<lambda>r. Some (Country r)) val W c = sum_list (map val (df_c W c))"
  by (simp add: group_sum_def df_c_def)

lemma set_df_rank: "set (df_rank W m) = set (groupby_sum (\<lambda>r. Some (Country r)) (col m) W)"
  by (simp add: df_rank_def)

lemma countries_df_rank: "fst ` set (df_rank W m) = Country ` set W"
proof -
  have "fst ` set (df_rank W m) = set (map fst (groupby_sum (\<lambda>r. Some (Country r)) (col m) W))"
    by (simp add: set_df_rank)
  also have "\<dots> = Country ` set W"
    unfolding map_fst_groupby_sum set_group_keys by auto
  finally show ?thesis .
qed

lemma length_df_rank: "length (df_rank W m) = card (Country ` set W)"
proof -
  have "length (df_rank W m) = length (group_keys (\<lambda>r. Some (Country r)) W)"
    by (simp add: df_rank_def groupby_sum_def)
  also have "\<dots> = card (set (group_keys (\<lambda>r. Some (Country r)) W))"
    by (simp add: distinct_card distinct_group_keys)
  also have "\<dots> = card (Country ` set W)"
    unfolding set_group_keys by (rule arg_cong [where f = card]) auto
  finally show ?thesis .
qed

lemma distinct_df_rank: "distinct (map fst (df_rank W m))"
proof (rule card_distinct)
  show "card (set (map fst (df_rank W m))) = length (map fst (df_rank W m))"
    by (simp add: countries_df_rank length_df_rank)
qed

lemma sums_df_rank: "(c, s) \<in> set (df_rank W m) \<Longrightarrow> s = sum_list (map (col m) (df_c W c))"
  by (auto simp: set_df_rank groupby_sum_def group_sum_Country)

lemma sorted_df_rank: "sorted_wrt (\<lambda>a b. b \<le> a) (map snd (df_rank W m))"
proof -
  have "sorted (map (\<lambda>r. - snd r) (df_rank W m))"
    by (simp add: df_rank_def)
  then show ?thesis
    by (simp add: sorted_wrt_map)
qed


lemma ensure_selected_both:
  "foldl (ensure_selected R) (take n R) [c1, c2]
     = take n R
         @ (if c1 \<notin> fst ` set (take n R) then filter (\<lambda>r. fst r = c1) R else [])
         @ (if c2 \<noteq> c1 \<and> c2 \<notin> fst ` set (take n R) then filter (\<lambda>r. fst r = c2) R else [])"
proof -
  let ?T = "take n R"
  let ?T1 = "ensure_selected R ?T c1"
  have T1: "?T1 = ?T @ (if c1 \<notin> fst ` set ?T then filter (\<lambda>r. fst r = c1) R else [])"
    by (simp add: ensure_selected_def)
  have in1: "c2 \<in> fst ` set ?T1 \<longleftrightarrow> c2 \<in> fst ` set ?T \<or> (c2 = c1 \<and> c1 \<in> fst ` set R)"
    unfolding T1 by (auto simp: image_iff dest: in_set_takeD)
  have "ensure_selected R ?T1 c2
      = ?T1 @ (if c2 \<noteq> c1 \<and> c2 \<notin> fst ` set ?T then filter (\<lambda>r. fst r = c2) R else [])"
  proof (cases "c2 \<in> fst ` set ?T1")
    case True
    then show ?thesis using in1 by (auto simp: ensure_selected_def)
  next
    case False
    then have no: "c2 \<notin> fst ` set ?T" "c2 \<noteq> c1 \<or> c1 \<notin> fst ` set R" using in1 by auto
    have "c2 = c1 \<Longrightarrow> filter (\<lambda>r. fst r = c2) R = []"
      using no by (auto simp: filter_empty_conv image_iff)
    then show ?thesis using False no(1) by (auto simp: ensure_selected_def)
  qed
  then show ?thesis by (simp add: T1)
qed

lemma filter_key_le_1:
  "distinct (map fst R) \<Longrightarrow> length (filter (\<lambda>r. fst r = c) R) \<le> 1"
proof (induction R)
  case Nil
  then show ?case by simp
next
  case (Cons r R)
  show ?case
  proof (cases "fst r = c")
    case True
    then have "filter (\<lambda>r. fst r = c) R = []"
      using Cons.prems by (auto simp: filter_empty_conv image_iff)
    then show ?thesis by simp
  next
    case False
    then show ?thesis using Cons by simp
  qed
qed

lemma distinct_append_key:
  assumes "distinct (map fst T)" and "c \<notin> fst ` set T" and "distinct (map fst R)"
  shows "distinct (map fst (T @ filter (\<lambda>r. fst r = c) R))"
proof -
  have "distinct (map fst (filter (\<lambda>r. fst r = c) R))"
    using assms(3) by (simp add: distinct_map_filter)
  then show ?thesis using assms(1,2) by (auto simp: image_iff)
qed


lemma df_top_rows:
  "map (\<lambda>r. (fst r, fst (snd r))) (df_top W m c1 c2)
     = take 10 (df_rank W m)
         @ (if c1 \<notin> fst ` set (take 10 (df_rank W m))
            then filter (\<lambda>r. fst r = c1) (df_rank W m) else [])
         @ (if c2 \<noteq> c1 \<and> c2 \<notin> fst ` set (take 10 (df_rank W m))
            then filter (\<lambda>r. fst r = c2) (df_rank W m) else [])"
proof -
  have "map (\<lambda>r. (fst r, fst (snd r))) (df_top W m c1 c2)
      = foldl (ensure_selected (df_rank W m)) (take 10 (df_rank W m)) [c1, c2]"
    unfolding df_top_def by (simp add: comp_def)
  then show ?thesis by (simp only: ensure_selected_both)
qed

lemma map_fst_df_top:
  "map fst (df_top W m c1 c2) = map fst (map (\<lambda>r. (fst r, fst (snd r))) (df_top W m c1 c2))"
  by (simp add: comp_def)

lemma length_df_top:
  "min 10 (card (Country ` set W)) \<le> length (df_top W m c1 c2)
   \<and> length (df_top W m c1 c2) \<le> min 10 (card (Country ` set W)) + 2"
proof -
  let ?R = "df_rank W m"
  have "length (df_top W m c1 c2) = length (map (\<lambda>r. (fst r, fst (snd r))) (df_top W m c1 c2))"
    by simp
  also have "\<dots> = min 10 (card (Country ` set W))
      + length (if c1 \<notin> fst ` set (take 10 ?R) then filter (\<lambda>r. fst r = c1) ?R else [])
      + length (if c2 \<noteq> c1 \<and> c2 \<notin> fst ` set (take 10 ?R) then filter (\<lambda>r. fst r = c2) ?R else [])"
    unfolding df_top_rows by (simp add: length_df_rank min.commute)
  finally show ?thesis
    using filter_key_le_1 [OF distinct_df_rank, of c1 W m]
      filter_key_le_1 [OF distinct_df_rank, of c2 W m]
    by (auto split: if_splits)
qed

lemma distinct_df_top: "distinct (map fst (df_top W m c1 c2))"
proof -
  let ?R = "df_rank W m"
  let ?T = "take 10 ?R"
  let ?X1 = "if c1 \<notin> fst ` set ?T then filter (\<lambda>r. fst r = c1) ?R else []"
  let ?X2 = "if c2 \<noteq> c1 \<and> c2 \<notin> fst ` set ?T then filter (\<lambda>r. fst r = c2) ?R else []"
  have dT: "distinct (map fst ?T)"
    using distinct_df_rank [of W m] by (simp add: take_map [symmetric] distinct_take)
  have d1: "distinct (map fst (?T @ ?X1))"
    using distinct_append_key [OF dT _ distinct_df_rank, of c1 W m] dT by simp
  have "c2 \<notin> fst ` set (?T @ ?X1)" if "c2 \<noteq> c1" "c2 \<notin> fst ` set ?T"
    using that by (auto simp: image_iff)
  then have "distinct (map fst ((?T @ ?X1) @ ?X2))"
    using distinct_append_key [OF d1 _ distinct_df_rank, of c2 W m] d1
    by (simp del: map_append append_assoc split del: if_split) (simp split: if_splits)
  then show ?thesis
    unfolding map_fst_df_top df_top_rows by (simp only: append_assoc)
qed

lemma selected_in_df_top:
  assumes "c = c1 \<or> c = c2" and "c \<in> Country ` set W"
  shows "c \<in> fst ` set (df_top W m c1 c2)"
proof -
  let ?R = "df_rank W m"
  have "c \<in> fst ` set ?R" using assms(2) by (simp add: countries_df_rank)
  then have ne: "c \<in> fst ` set (filter (\<lambda>r. fst r = c) ?R)" by (auto simp: image_iff)
  have "c \<in> set (map fst (map (\<lambda>r. (fst r, fst (snd r))) (df_top W m c1 c2)))"
    unfolding df_top_rows using assms(1) ne by (auto simp: image_iff)
  then show ?thesis by (simp only: map_fst_df_top [symmetric] set_map)
qed


lemma df_top_tags:
  "r \<in> set (df_top W m c1 c2) \<Longrightarrow>
     snd (snd r) = (if fst r = c1 \<or> fst r = c2 then fst r @ '' (Selected)'' else ''Other'')"
  by (auto simp: df_top_def Selected_def)

text \<open>
  C4, as the code has it. \<open>df_rank\<close> has one row per country of the window, with the sum
  of the metric over that country's rows, in descending order of the sums. \<open>df_top\<close> is
  its first ten rows, followed by the row of each selected country that is not among
  them and has a row in \<open>df_rank\<close>. With \<open>n\<close> countries in the window it has between
  \<open>min 10 n\<close> and \<open>min 10 n + 2\<close> rows, so 10, 11 or 12 when \<open>n\<close> is at least 10; no
  country stands twice; a selected country that has a row in the window is in it; and the
  tag of a row is the country followed by \<open>(Selected)\<close> for the two chosen countries and
  \<open>Other\<close> for the rest.
\<close>

theorem top_n_ranking:
  "distinct (map fst (df_rank W m))
   \<and> fst ` set (df_rank W m) = Country ` set W
   \<and> (\<forall>r\<in>set (df_rank W m). snd r = sum_list (map (col m) (df_c W (fst r))))
   \<and> sorted_wrt (\<lambda>a b. b \<le> a) (map snd (df_rank W m))
   \<and> map (\<lambda>r. (fst r, fst (snd r))) (df_top W m c1 c2)
       = take 10 (df_rank W m)
           @ (if c1 \<notin> fst ` set (take 10 (df_rank W m))
              then filter (\<lambda>r. fst r = c1) (df_rank W m) else [])
           @ (if c2 \<noteq> c1 \<and> c2 \<notin> fst ` set (take 10 (df_rank W m))
              then filter (\<lambda>r. fst r = c2) (df_rank W m) else [])
   \<and> min 10 (card (Country ` set W)) \<le> length (df_top W m c1 c2)
   \<and> length (df_top W m c1 c2) \<le> min 10 (card (Country ` set W)) + 2
   \<and> (10 \<le> card (Country ` set W) \<longrightarrow> length (df_top W m c1 c2) \<in> {10, 11, 12})
   \<and> distinct (map fst (df_top W m c1 c2))
   \<and> (\<forall>c\<in>{c1, c2}. c \<in> Country ` set W \<longrightarrow> c \<in> fst ` set (df_top W m c1 c2))
   \<and> (\<forall>r\<in>set (df_top W m c1 c2).
         snd (snd r) = (if fst r = c1 \<or> fst r = c2 then fst r @ '' (Selected)'' else ''Other''))"
proof -
  have sums: "\<forall>r\<in>set (df_rank W m). snd r = sum_list (map (col m) (df_c W (fst r)))"
    using sums_df_rank [of _ _ W m] by auto
  have len: "10 \<le> card (Country ` set W) \<longrightarrow> length (df_top W m c1 c2) \<in> {10, 11, 12}"
    using length_df_top [of W m c1 c2] by auto
  have sel: "\<forall>c\<in>{c1, c2}. c \<in> Country ` set W \<longrightarrow> c \<in> fst ` set (df_top W m c1 c2)"
    using selected_in_df_top [of _ c1 c2 W m] by blast
  have tags: "\<forall>r\<in>set (df_top W m c1 c2).
      snd (snd r) = (if fst r = c1 \<or> fst r = c2 then fst r @ '' (Selected)'' else ''Other'')"
    using df_top_tags by blast
  show ?thesis
    using distinct_df_rank [of W m] countries_df_rank [of W m] sums sorted_df_rank [of W m]
      df_top_rows [of W m c1 c2] length_df_top [of W m c1 c2] len
      distinct_df_top [of W m c1 c2] sel tags
    by (intro conjI) (blast | assumption)+
qed

text \<open>
  Eleven countries in the window, the eleventh and the first selected: the top ten and
  the row of \<open>K\<close> appended.
\<close>

lemma df_top_eleven:
  "df_top (df_f (1, 2) eleven) M_New_cases ''K'' ''A''
     = [(''A'', 11, ''A (Selected)''), (''B'', 10, ''Other''), (''C'', 9, ''Other''),
        (''D'', 8, ''Other''), (''E'', 7, ''Other''), (''F'', 6, ''Other''),
        (''G'', 5, ''Other''), (''H'', 4, ''Other''), (''I'', 3, ''Other''),
        (''J'', 2, ''Other''), (''K'', 1, ''K (Selected)'')]"
  by code_simp

lemma card_eleven: "card (Country ` set (df_f (1, 2) eleven)) = 11"
  by code_simp

theorem top_n_ranking_witness:
  "10 \<le> card (Country ` set (df_f (1, 2) eleven))
   \<and> ''K'' \<in> Country ` set (df_f (1, 2) eleven)
   \<and> ''A'' \<in> Country ` set (df_f (1, 2) eleven)
   \<and> length (df_top (df_f (1, 2) eleven) M_New_cases ''K'' ''A'') = 11
   \<and> ''K'' \<in> fst ` set (df_top (df_f (1, 2) eleven) M_New_cases ''K'' ''A'')
   \<and> ''A'' \<in> fst ` set (df_top (df_f (1, 2) eleven) M_New_cases ''K'' ''A'')
   \<and> distinct (map fst (df_top (df_f (1, 2) eleven) M_New_cases ''K'' ''A''))"
proof -
  have K: "''K'' \<in> Country ` set (df_f (1, 2) eleven)"
    and A: "''A'' \<in> Country ` set (df_f (1, 2) eleven)"
    by (simp_all add: df_f_def mask_def eleven_def obs_def)
  from top_n_ranking [of "df_f (1, 2) eleven" M_New_cases "''K''" "''A''"] K A
  show ?thesis by (simp add: card_eleven df_top_eleven)
qed

text \<open>
  C4 as stated fails where the window has fewer than ten countries, and where a selected
  country has no row in the window: Chad is a country of the table, its only row is of
  day 9, and in the window of days 1 to 2 the ranking has two rows, none of them Chad's.
\<close>

theorem top_n_ranking_counterexample:
  "''Chad'' \<in> Country ` set late_chad
   \<and> df_top (df_f (1, 2) late_chad) M_New_cases ''Italy'' ''Chad''
       = [(''Italy'', 30, ''Italy (Selected)''), (''Peru'', 5, ''Other'')]"
proof -
  have "df_top (df_f (1, 2) late_chad) M_New_cases ''Italy'' ''Chad''
       = [(''Italy'', 30, ''Italy (Selected)''), (''Peru'', 5, ''Other'')]"
    by code_simp
  then show ?thesis by (simp add: late_chad_def two_days_def obs_def)
qed

section \<open>\<open>preprocess\<close>: what it returns and when\<close>

lemma getitem_setitem:
  "getitem (setitem df c v) c' = (if c' = c then Inr v else getitem df c')"
  by (simp add: getitem_def setitem_def update_conv')

lemma columns_setitem: "set (columns (setitem df c v)) = insert c (set (columns df))"
  by (simp add: columns_def setitem_def dom_update)

lemma getitem_Inr_iff: "(\<exists>v. getitem df c = Inr v) \<longleftrightarrow> c \<in> set (columns df)"
proof -
  have "map_of (cols df) c = None \<longleftrightarrow> c \<notin> fst ` set (cols df)"
    by (rule map_of_eq_None_iff)
  then show ?thesis
    by (cases "map_of (cols df) c") (auto simp: getitem_def columns_def)
qed

lemma getitem_Inl: "c \<notin> set (columns df) \<Longrightarrow> getitem df c = Inl (KeyError c)"
  using getitem_Inr_iff [of df c] by (auto simp: getitem_def split: option.splits)

lemma getitem_ensure_Country:
  "c \<noteq> ''Country'' \<Longrightarrow> getitem (ensure_Country df) c = getitem df c"
  by (simp add: ensure_Country_def getitem_setitem split: list.splits option.splits)

lemma Country_after_ensure: "''Country'' \<in> set (columns (ensure_Country df))"
proof (cases "''Country'' \<in> set (columns df)")
  case True
  then show ?thesis by (simp add: ensure_Country_def)
next
  case False
  show ?thesis
  proof (cases "filter (\<lambda>c. contains ''country'' (lower c)) (columns df)")
    case Nil
    with False show ?thesis by (simp add: ensure_Country_def columns_setitem)
  next
    case (Cons c cs)
    then have "c \<in> set (filter (\<lambda>c. contains ''country'' (lower c)) (columns df))"
      by simp
    then have "c \<in> set (columns df)"
      by simp
    then obtain v where "map_of (cols df) c = Some v"
      using getitem_Inr_iff [of df c] by (auto simp: getitem_def split: option.splits)
    with False Cons show ?thesis by (simp add: ensure_Country_def columns_setitem)
  qed
qed

lemma getitem_coerce_col:
  "getitem (coerce_col pd df c) c' =
     (if c' = c then (case getitem df c of Inl e \<Rightarrow> Inl e | Inr v \<Rightarrow> Inr (map (coerce pd) v))
      else getitem df c')"
  by (auto simp: coerce_col_def getitem_setitem split: option.splits) (auto simp: getitem_def)

lemma getitem_coerced:
  "getitem (foldl (coerce_col pd) df numeric_cols) c =
     (if c \<in> set numeric_cols
      then (case getitem df c of Inl e \<Rightarrow> Inl e | Inr v \<Rightarrow> Inr (map (coerce pd) v))
      else getitem df c)"
  by (simp add: numeric_cols_def getitem_coerce_col)

lemma preprocess_eq:
  assumes "getitem df ''Date_reported'' = Inr reported"
  shows "\<exists>country. getitem (ensure_Country df) ''Country'' = Inr country
    \<and> preprocess pd df = Inr (setitem (foldl (coerce_col pd)
          (setitem (ensure_Country df) ''Date'' (map (to_datetime_date pd) reported)) numeric_cols)
          ''Country'' (map (clean_Country pd) country))"
proof -
  obtain country where c: "getitem (ensure_Country df) ''Country'' = Inr country"
    using Country_after_ensure [of df] getitem_Inr_iff by blast
  have d: "getitem (ensure_Country df) ''Date_reported'' = Inr reported"
    using assms by (simp add: getitem_ensure_Country)
  have "''Country'' \<notin> set numeric_cols" by (simp add: numeric_cols_def)
  then show ?thesis
    using c d by (simp add: preprocess_def Let_def getitem_coerced getitem_setitem)
qed

lemma preprocess_KeyError:
  "''Date_reported'' \<notin> set (columns df) \<Longrightarrow> preprocess pd df = Inl (KeyError ''Date_reported'')"
proof -
  assume "''Date_reported'' \<notin> set (columns df)"
  then have "getitem df ''Date_reported'' = Inl (KeyError ''Date_reported'')"
    by (rule getitem_Inl)
  then have "getitem (ensure_Country df) ''Date_reported'' = Inl (KeyError ''Date_reported'')"
    by (simp add: getitem_ensure_Country)
  then show ?thesis by (simp add: preprocess_def Let_def)
qed

lemma strip_trimmed: "strip (strip s) = strip s"
proof -
  let ?u = "dropWhile isspace s"
  let ?t = "rev (dropWhile isspace (rev ?u))"
  have u: "?u = ?t @ rev (takeWhile isspace (rev ?u))"
    by (metis rev_append rev_rev_ident takeWhile_dropWhile_id)
  have front: "dropWhile isspace ?t = ?t"
  proof (cases "?t = []")
    case True
    show ?thesis by (simp only: True dropWhile.simps)
  next
    case False
    then have "hd ?t = hd ?u" using u by (metis hd_append2)
    moreover have ne: "?u \<noteq> []"
    proof
      assume e: "?u = []"
      have "?t = []" unfolding e by simp
      with False show False by contradiction
    qed
    from ne have "\<not> isspace (hd ?u)" by (rule hd_dropWhile)
    ultimately show ?thesis using False by (cases ?t) auto
  qed
  have "strip ?t = rev (dropWhile isspace (rev ?t))"
    by (simp only: strip_def front)
  also have "\<dots> = ?t" by (simp add: dropWhile_idem)
  finally show ?thesis by (simp add: strip_def)
qed

lemma coerce_cases:
  "(\<exists>n. coerce pd c = Num n)
   \<and> (to_numeric pd c = Null \<longrightarrow> coerce pd c = Num (Finite 0))
   \<and> (\<forall>n. to_numeric pd c = Num n \<longrightarrow> coerce pd c = Num n)"
  by (auto simp: coerce_def fillna_def to_numeric_def split: cell.splits option.splits)

lemma strip_empty_iff: "strip s = [] \<longleftrightarrow> (\<forall>c\<in>set s. isspace c)"
proof -
  have "strip s = [] \<longleftrightarrow> dropWhile isspace (rev (dropWhile isspace s)) = []"
    by (simp add: strip_def)
  also have "\<dots> \<longleftrightarrow> (\<forall>c\<in>set (dropWhile isspace s). isspace c)"
    by (simp add: dropWhile_eq_Nil_conv)
  also have "\<dots> \<longleftrightarrow> dropWhile isspace s = []"
  proof
    assume all: "\<forall>c\<in>set (dropWhile isspace s). isspace c"
    show "dropWhile isspace s = []"
    proof (rule ccontr)
      assume ne: "dropWhile isspace s \<noteq> []"
      then have "\<not> isspace (hd (dropWhile isspace s))" by (rule hd_dropWhile)
      moreover have "hd (dropWhile isspace s) \<in> set (dropWhile isspace s)"
        using ne by (rule hd_in_set)
      ultimately show False using all by blast
    qed
  next
    assume "dropWhile isspace s = []"
    then have "set (dropWhile isspace s) = {}" by (simp only: set_empty)
    then show "\<forall>c\<in>set (dropWhile isspace s). isspace c" by (simp only: ball_empty)
  qed
  also have "\<dots> \<longleftrightarrow> (\<forall>c\<in>set s. isspace c)"
    by (simp add: dropWhile_eq_Nil_conv)
  finally show ?thesis .
qed

lemma clean_Country_cases:
  "(\<exists>s. clean_Country pd c = Str s \<and> strip s = s)
   \<and> clean_Country pd Null = Str ''Unknown''
   \<and> (\<forall>s. clean_Country pd (Str s) = Str (strip s))"
proof -
  have "strip ''Unknown'' = ''Unknown''" by code_simp
  then show ?thesis
    by (simp add: clean_Country_def fillna_def astype_str_def strip_trimmed)
qed

lemma well_formed_length:
  assumes "well_formed df" and "getitem df c = Inr v"
  shows "length v = nrows df"
proof -
  have "map_of (cols df) c = Some v"
    using assms(2) by (auto simp: getitem_def split: option.splits)
  then have "(c, v) \<in> set (cols df)" by (rule map_of_SomeD)
  then have "v \<in> set (map snd (cols df))" by force
  then show ?thesis using assms(1) by (auto simp: well_formed_def list_all_iff)
qed

lemma length_ensured_Country:
  assumes "well_formed df" and "getitem (ensure_Country df) ''Country'' = Inr country"
  shows "length country = nrows df"
proof (cases "''Country'' \<in> set (columns df)")
  case True
  then have "ensure_Country df = df" by (simp add: ensure_Country_def)
  then show ?thesis using assms well_formed_length by simp
next
  case False
  show ?thesis
  proof (cases "filter (\<lambda>c. contains ''country'' (lower c)) (columns df)")
    case Nil
    then have "ensure_Country df = setitem df ''Country'' (replicate (nrows df) (Str ''Unknown''))"
      using False by (simp add: ensure_Country_def)
    then show ?thesis using assms(2) by (auto simp: getitem_setitem)
  next
    case (Cons c cs)
    show ?thesis
    proof (cases "map_of (cols df) c")
      case None
      then have "ensure_Country df = df" using False Cons by (simp add: ensure_Country_def)
      then show ?thesis using assms well_formed_length by simp
    next
      case (Some v)
      then have "ensure_Country df = setitem df ''Country'' v"
        using False Cons by (simp add: ensure_Country_def)
      then have "country = v" using assms(2) by (simp add: getitem_setitem)
      moreover have "getitem df c = Inr v" using Some by (simp add: getitem_def)
      ultimately show ?thesis using assms(1) well_formed_length by blast
    qed
  qed
qed

lemma preprocess_needs_date:
  "preprocess pd df = Inr out \<Longrightarrow> \<exists>reported. getitem df ''Date_reported'' = Inr reported"
  using preprocess_KeyError [of df pd] getitem_Inr_iff [of df "''Date_reported''"] by auto

lemma numeric_not_added:
  "c \<in> set numeric_cols \<Longrightarrow> c \<noteq> ''Country'' \<and> c \<noteq> ''Date''"
  by (auto simp: numeric_cols_def)

lemma nrows_setitem [simp]: "nrows (setitem df c v) = nrows df"
  by (simp add: setitem_def)

lemma nrows_ensure_Country [simp]: "nrows (ensure_Country df) = nrows df"
  by (simp add: ensure_Country_def split: list.splits option.splits)

lemma nrows_coerce_col [simp]: "nrows (coerce_col pd df c) = nrows df"
  by (simp add: coerce_col_def split: option.splits)

lemma columns_ensure_Country:
  "set (columns (ensure_Country df)) = insert ''Country'' (set (columns df))"
proof -
  have "set (columns (ensure_Country df)) \<subseteq> insert ''Country'' (set (columns df))"
    by (auto simp: ensure_Country_def columns_setitem split: list.splits option.splits if_splits)
  moreover have "set (columns df) \<subseteq> set (columns (ensure_Country df))"
    by (auto simp: ensure_Country_def columns_setitem split: list.splits option.splits)
  ultimately show ?thesis using Country_after_ensure [of df] by blast
qed

lemma columns_coerce_col: "set (columns (coerce_col pd df c)) = set (columns df)"
proof (cases "map_of (cols df) c")
  case None
  then show ?thesis by (simp add: coerce_col_def)
next
  case (Some v)
  then have "c \<in> set (columns df)"
    using getitem_Inr_iff [of df c] by (simp add: getitem_def)
  with Some show ?thesis by (auto simp: coerce_col_def columns_setitem)
qed

text \<open>
  C5, as the code has it. For a table of pandas on which \<open>preprocess\<close> returns, the
  \<open>Country\<close> column of the result has a cell for every row, the cleaned cell of the
  input's \<open>Country\<close> column (or of its stand-in): a string, never missing, with no
  white space at either end; it is \<open>Unknown\<close> where the source is missing, and not
  empty where the source is a string, or has a text, with a character that is not white
  space. Each of
  the four numeric columns that the input has keeps a cell for every row, coerced: a
  number, never missing, the source number where the source is a number or reads as one
  (whatever its sign, an infinity included), and exactly 0 where it does not.
\<close>

theorem preprocess_output:
  assumes "well_formed df" and "preprocess pd df = Inr out"
  shows "(\<exists>country. getitem (ensure_Country df) ''Country'' = Inr country
            \<and> length country = nrows df
            \<and> getitem out ''Country'' = Inr (map (clean_Country pd) country))
    \<and> (\<forall>c. \<exists>s. clean_Country pd c = Str s \<and> strip s = s)
    \<and> clean_Country pd Null = Str ''Unknown''
    \<and> (\<forall>s. (\<exists>ch\<in>set s. \<not> isspace ch) \<longrightarrow>
          clean_Country pd (Str s) = Str (strip s) \<and> strip s \<noteq> [])
    \<and> (\<forall>c. (\<exists>ch\<in>set (astype_str pd (fillna (Str ''Unknown'') c)). \<not> isspace ch) \<longrightarrow>
          clean_Country pd c \<noteq> Str [])
    \<and> (\<forall>c\<in>set numeric_cols. \<forall>v. getitem df c = Inr v \<longrightarrow>
          length v = nrows df \<and> getitem out c = Inr (map (coerce pd) v))
    \<and> (\<forall>c\<in>set numeric_cols. \<forall>v. getitem out c = Inr v \<longrightarrow> (\<forall>x\<in>set v. \<exists>n. x = Num n))
    \<and> (\<forall>c. (\<exists>n. coerce pd c = Num n)
           \<and> (to_numeric pd c = Null \<longrightarrow> coerce pd c = Num (Finite 0))
           \<and> (\<forall>n. to_numeric pd c = Num n \<longrightarrow> coerce pd c = Num n))"
proof -
  obtain reported where rep: "getitem df ''Date_reported'' = Inr reported"
    using preprocess_needs_date [OF assms(2)] by blast
  let ?df2 = "setitem (ensure_Country df) ''Date'' (map (to_datetime_date pd) reported)"
  obtain country where country: "getitem (ensure_Country df) ''Country'' = Inr country"
    and out: "out = setitem (foldl (coerce_col pd) ?df2 numeric_cols) ''Country''
        (map (clean_Country pd) country)"
    using preprocess_eq [OF rep, of pd] assms(2) by auto
  have len: "length country = nrows df"
    using length_ensured_Country [OF assms(1) country] .
  have C: "getitem out ''Country'' = Inr (map (clean_Country pd) country)"
    by (simp add: out getitem_setitem)
  have first: "\<exists>country. getitem (ensure_Country df) ''Country'' = Inr country
            \<and> length country = nrows df
            \<and> getitem out ''Country'' = Inr (map (clean_Country pd) country)"
    using country len C by blast
  have trimmed: "\<forall>c. \<exists>s. clean_Country pd c = Str s \<and> strip s = s"
    using clean_Country_cases [of pd] by blast
  have unknown: "clean_Country pd Null = Str ''Unknown''"
    using clean_Country_cases [of pd] by blast
  have nonempty: "\<forall>s. (\<exists>ch\<in>set s. \<not> isspace ch) \<longrightarrow>
      clean_Country pd (Str s) = Str (strip s) \<and> strip s \<noteq> []"
    using clean_Country_cases [of pd] strip_empty_iff by blast
  have text_nonempty: "\<forall>c. (\<exists>ch\<in>set (astype_str pd (fillna (Str ''Unknown'') c)). \<not> isspace ch) \<longrightarrow>
      clean_Country pd c \<noteq> Str []"
    by (simp add: clean_Country_def strip_empty_iff)
  have num: "getitem out c = (case getitem df c of Inl e \<Rightarrow> Inl e | Inr v \<Rightarrow> Inr (map (coerce pd) v))"
    if "c \<in> set numeric_cols" for c
    using that numeric_not_added [OF that]
    by (simp add: out getitem_setitem getitem_coerced getitem_ensure_Country)
  have coerced: "\<forall>c\<in>set numeric_cols. \<forall>v. getitem df c = Inr v \<longrightarrow>
      length v = nrows df \<and> getitem out c = Inr (map (coerce pd) v)"
    using num well_formed_length [OF assms(1)] by simp
  have numbers: "\<forall>c\<in>set numeric_cols. \<forall>v. getitem out c = Inr v \<longrightarrow> (\<forall>x\<in>set v. \<exists>n. x = Num n)"
  proof (intro ballI allI impI)
    fix c v x
    assume c: "c \<in> set numeric_cols" and v: "getitem out c = Inr v" and x: "x \<in> set v"
    from num [OF c] v obtain v0 where "v = map (coerce pd) v0"
      by (auto split: sum.splits)
    with x show "\<exists>n. x = Num n" using coerce_cases [of pd] by auto
  qed
  have cells: "\<forall>c. (\<exists>n. coerce pd c = Num n)
           \<and> (to_numeric pd c = Null \<longrightarrow> coerce pd c = Num (Finite 0))
           \<and> (\<forall>n. to_numeric pd c = Num n \<longrightarrow> coerce pd c = Num n)"
    using coerce_cases [of pd] by blast
  show ?thesis
    using first trimmed unknown nonempty text_nonempty coerced numbers cells by (intro conjI)
qed

lemma preprocess_messy:
  "preprocess no_parse messy = Inr \<lparr>nrows = 2, cols =
     [(''Date_reported'', [Day 1, Str ''soon'']),
      (''WHO_country'', [Str '' Italy '', Null]),
      (''New_cases'', [Num (Finite 0), Num (Finite 3)]),
      (''Country'', [Str ''Italy'', Str ''Unknown'']),
      (''Date'', [Day 1, Null])]\<rparr>"
  by code_simp

text \<open>
  A table with no \<open>Country\<close> column, a missing country, an unreadable date and an
  unreadable count.
\<close>

theorem preprocess_output_witness:
  "well_formed messy
   \<and> getitem (ensure_Country messy) ''Country'' = Inr [Str '' Italy '', Null]
   \<and> (\<exists>out. preprocess no_parse messy = Inr out
        \<and> getitem out ''Country'' = Inr [Str ''Italy'', Str ''Unknown'']
        \<and> getitem out ''New_cases'' = Inr [Num (Finite 0), Num (Finite 3)])"
proof -
  have e: "getitem (ensure_Country messy) ''Country'' = Inr [Str '' Italy '', Null]"
    by code_simp
  have c: "map (clean_Country no_parse) [Str '' Italy '', Null] = [Str ''Italy'', Str ''Unknown'']"
    by code_simp
  have n: "getitem messy ''New_cases'' = Inr [Str ''n/a'', Num (Finite 3)]"
    by code_simp
  have k: "''New_cases'' \<in> set numeric_cols"
    by (simp add: numeric_cols_def)
  have v: "map (coerce no_parse) [Str ''n/a'', Num (Finite 3)] = [Num (Finite 0), Num (Finite 3)]"
    by code_simp
  have w: "well_formed messy"
    by (simp add: well_formed_def columns_def messy_def)
  from preprocess_output [OF w preprocess_messy] w e c n k v
  show ?thesis by (auto simp: preprocess_messy)
qed

text \<open>
  C5 as stated fails: a count of \<open>- 5\<close> stays \<open>- 5\<close>, a count that reads as an
  infinity stays an infinity, and a country of two blanks becomes the empty string.
\<close>

theorem preprocess_output_counterexample:
  "well_formed blank_negative
   \<and> preprocess reads_inf blank_negative = Inr \<lparr>nrows = 1, cols =
     [(''Date_reported'', [Day 1]), (''Country'', [Str []]),
      (''New_cases'', [Num (Finite (- 5))]), (''New_deaths'', [Num PlusInfinity]),
      (''Date'', [Day 1])]\<rparr>"
proof -
  have "well_formed blank_negative"
    by (simp add: well_formed_def columns_def blank_negative_def)
  moreover have "preprocess reads_inf blank_negative = Inr \<lparr>nrows = 1, cols =
     [(''Date_reported'', [Day 1]), (''Country'', [Str []]),
      (''New_cases'', [Num (Finite (- 5))]), (''New_deaths'', [Num PlusInfinity]),
      (''Date'', [Day 1])]\<rparr>"
    by code_simp
  ultimately show ?thesis by blast
qed

text \<open>
  C7, as the code has it. On a table whose labels are distinct and include
  \<open>Date_reported\<close>, \<open>preprocess\<close> returns a table, with the rows and the columns of the
  input and the columns \<open>Country\<close> and \<open>Date\<close>.
\<close>

theorem preprocess_total_with_date:
  assumes "distinct (columns df)" and "''Date_reported'' \<in> set (columns df)"
  shows "\<exists>out. preprocess pd df = Inr out \<and> nrows out = nrows df
    \<and> set (columns out) = set (columns df) \<union> {''Country'', ''Date''}"
proof -
  obtain reported where rep: "getitem df ''Date_reported'' = Inr reported"
    using assms(2) getitem_Inr_iff by blast
  let ?df2 = "setitem (ensure_Country df) ''Date'' (map (to_datetime_date pd) reported)"
  obtain country where
    out: "preprocess pd df = Inr (setitem (foldl (coerce_col pd) ?df2 numeric_cols) ''Country''
        (map (clean_Country pd) country))"
    using preprocess_eq [OF rep, of pd] by blast
  have "nrows (foldl (coerce_col pd) ?df2 numeric_cols) = nrows df"
    by (simp add: numeric_cols_def)
  moreover have "set (columns (foldl (coerce_col pd) ?df2 numeric_cols))
      = set (columns df) \<union> {''Country'', ''Date''}"
    by (simp add: numeric_cols_def columns_coerce_col columns_setitem columns_ensure_Country
        insert_commute)
  ultimately show ?thesis
    using out by (auto simp: columns_setitem)
qed

theorem preprocess_total_with_date_witness:
  "distinct (columns messy) \<and> ''Date_reported'' \<in> set (columns messy)
   \<and> (\<exists>out. preprocess no_parse messy = Inr out \<and> nrows out = nrows messy
        \<and> set (columns out) = set (columns messy) \<union> {''Country'', ''Date''})"
proof -
  have d: "distinct (columns messy)" and r: "''Date_reported'' \<in> set (columns messy)"
    by (simp_all add: columns_def messy_def)
  from preprocess_total_with_date [OF d r, of no_parse] d r
  show ?thesis by blast
qed

text \<open>
  C7 as stated fails: a table with no \<open>Date_reported\<close> column makes
  \<open>df["Date_reported"]\<close> raise KeyError, and nothing catches it.
\<close>

theorem preprocess_total_counterexample:
  "''Date_reported'' \<notin> set (columns no_date)
   \<and> preprocess no_parse no_date = Inl (KeyError ''Date_reported'')"
proof -
  have a: "''Date_reported'' \<notin> set (columns no_date)"
    by (simp add: columns_def no_date_def)
  from preprocess_KeyError [OF a, of no_parse] a show ?thesis by simp
qed

section \<open>Empty input\<close>


lemma groupby_sum_Nil [simp]: "groupby_sum key val [] = []"
  by (simp add: groupby_sum_def group_keys_def List.map_filter_def)





subsection \<open>The table that \<open>preprocess\<close> returns, column by column\<close>














section \<open>\<open>load_data\<close>: which candidate decides\<close>

lemma try_each_skip:
  "i \<le> length ps \<Longrightarrow> \<forall>j<i. read_csv (ps ! j) = FileNotFoundError \<Longrightarrow>
     try_each read_csv ps = try_each read_csv (drop i ps)"
proof (induction ps arbitrary: i)
  case Nil
  then show ?case by simp
next
  case (Cons p ps)
  show ?case
  proof (cases i)
    case 0
    then show ?thesis by simp
  next
    case (Suc k)
    have "read_csv p = FileNotFoundError" using Cons.prems(2) Suc by auto
    moreover have "\<forall>j<k. read_csv (ps ! j) = FileNotFoundError"
      using Cons.prems(2) Suc by auto
    moreover have "k \<le> length ps" using Cons.prems(1) Suc by simp
    ultimately show ?thesis using Cons.IH [of k] Suc by simp
  qed
qed

lemma try_each_at:
  assumes "i < length ps" and "\<forall>j<i. read_csv (ps ! j) = FileNotFoundError"
  shows "try_each read_csv ps =
     (case read_csv (ps ! i) of
        Parsed df \<Rightarrow> Some (Loaded (strip_columns df))
      | FileNotFoundError \<Rightarrow> try_each read_csv (drop (Suc i) ps)
      | OtherError e \<Rightarrow> Some (Stop [reading_error (ps ! i) e]))"
proof -
  have "try_each read_csv ps = try_each read_csv (drop i ps)"
    using assms by (intro try_each_skip) auto
  also have "drop i ps = ps ! i # drop (Suc i) ps"
    using assms(1) by (simp add: Cons_nth_drop_Suc)
  finally show ?thesis by simp
qed

text \<open>
  C9, as the code has it. The candidates of the loop are the file in the working
  directory, the file beside the script and, when it is set and not empty, the URL of the
  environment. When every candidate before the \<open>i\<close>-th was not found, the \<open>i\<close>-th
  decides: parsed, its table is returned; another failure, the run stops with one error
  that names the candidate and the cause. When all of them were not found, the hardcoded
  URL is read: parsed, its table is returned; any failure of it, whatever its kind, stops
  the run with the help message.
\<close>

theorem load_data_policy:
  assumes "ps = try_paths script_dir env_url" and "i \<le> length ps"
    and "\<forall>j<i. read_csv (ps ! j) = FileNotFoundError"
  shows "(i < length ps \<longrightarrow>
            (\<forall>df. read_csv (ps ! i) = Parsed df \<longrightarrow>
               load_data read_csv script_dir env_url = Loaded (strip_columns df))
          \<and> (\<forall>e. read_csv (ps ! i) = OtherError e \<longrightarrow>
               load_data read_csv script_dir env_url
                 = Stop [Error (''Error reading data from '' @ ps ! i @ '': '' @ e)]))
    \<and> (i = length ps \<longrightarrow>
            (\<forall>df. read_csv github_raw = Parsed df \<longrightarrow>
               load_data read_csv script_dir env_url = Loaded (strip_columns df))
          \<and> ((\<forall>df. read_csv github_raw \<noteq> Parsed df) \<longrightarrow>
               load_data read_csv script_dir env_url = Stop not_found_help))"
proof -
  have at: "try_each read_csv (try_paths script_dir env_url) =
     (case read_csv (ps ! i) of
        Parsed df \<Rightarrow> Some (Loaded (strip_columns df))
      | FileNotFoundError \<Rightarrow> try_each read_csv (drop (Suc i) ps)
      | OtherError e \<Rightarrow> Some (Stop [reading_error (ps ! i) e]))" if "i < length ps"
    using try_each_at [OF that assms(3)] assms(1) by simp
  have all: "try_each read_csv (try_paths script_dir env_url) = None" if "i = length ps"
    using try_each_skip [OF assms(2,3)] that assms(1) by simp
  have last: "load_data read_csv script_dir env_url = Stop not_found_help"
    if "i = length ps" "\<forall>df. read_csv github_raw \<noteq> Parsed df"
    using all [OF that(1)] that(2) by (cases "read_csv github_raw") (simp_all add: load_data_def)
  show ?thesis
    using at all last by (auto simp: load_data_def reading_error_def)
qed

text \<open>
  The working directory has no file, the file beside the script does not parse: the
  run stops with an error that names that file and the cause.
\<close>

theorem load_data_policy_witness:
  "try_paths ''/app'' None = [filename, ''/app/WHO-COVID-19-global-data.csv'']
   \<and> broken_copy filename = FileNotFoundError
   \<and> broken_copy ''/app/WHO-COVID-19-global-data.csv'' = OtherError ''No columns to parse from file''
   \<and> load_data broken_copy ''/app'' None
       = Stop [Error (''Error reading data from /app/WHO-COVID-19-global-data.csv''
                       @ '': No columns to parse from file'')]"
proof -
  have ps: "try_paths ''/app'' None = [filename, ''/app/WHO-COVID-19-global-data.csv'']"
    by (simp add: try_paths_def path_join_def filename_def)
  have first: "\<forall>j<1. broken_copy ([filename, ''/app/WHO-COVID-19-global-data.csv''] ! j)
      = FileNotFoundError"
    by (simp add: broken_copy_def)
  have second: "broken_copy ''/app/WHO-COVID-19-global-data.csv''
      = OtherError ''No columns to parse from file''"
    by (simp add: broken_copy_def filename_def)
  have le: "1 \<le> length [filename, ''/app/WHO-COVID-19-global-data.csv'']"
    by simp
  have zero: "broken_copy filename = FileNotFoundError"
    by (simp add: broken_copy_def)
  have "load_data broken_copy ''/app'' None
       = Stop [Error (''Error reading data from /app/WHO-COVID-19-global-data.csv''
                       @ '': No columns to parse from file'')]"
    using load_data_policy [OF ps [symmetric] le first] second by simp
  then show ?thesis using ps zero second by blast
qed

text \<open>
  C9 as stated fails at the fourth candidate: the files are not found, the hardcoded URL
  answers with a server error, and the run stops with the help message, which names
  neither the URL nor the cause.
\<close>

theorem load_data_policy_counterexample:
  "fallback_down github_raw = OtherError ''HTTP Error 503: Service Unavailable''
   \<and> load_data fallback_down ''/app'' None = Stop not_found_help
   \<and> filter (contains github_raw) (map text_of not_found_help) = []
   \<and> filter (contains ''HTTP Error 503: Service Unavailable'') (map text_of not_found_help) = []"
proof -
  have a: "fallback_down github_raw = OtherError ''HTTP Error 503: Service Unavailable''"
    by (simp add: fallback_down_def)
  have b: "load_data fallback_down ''/app'' None = Stop not_found_help"
    by code_simp
  have c: "filter (contains github_raw) (map text_of not_found_help) = []"
    by code_simp
  have d: "filter (contains ''HTTP Error 503: Service Unavailable'') (map text_of not_found_help) = []"
    by code_simp
  show ?thesis using a b c d by blast
qed

end
